theory Spec2Isabelle
  imports Main "HOL-Library.Word" "HOL-Library.Signed_Division" "HOL-Library.Sublist"
begin

unbundle bit_operations_syntax

section \<open>Standard output as text\<close>

text \<open>
  Both programs write to standard output with \<^verbatim>\<open>printf\<close>. The stream is a
  \<^typ>\<open>string\<close>; a line ends at the newline character. The conversions \<^verbatim>\<open>%d\<close> and
  \<^verbatim>\<open>%jd\<close> print a signed integer in decimal.
\<close>

definition newline :: char where
  "newline = CHR 0x0A"

definition digit_char :: "nat \<Rightarrow> char" where
  "digit_char d = ''0123456789'' ! d"

function show_nat :: "nat \<Rightarrow> string" where
  "show_nat n = (if n < 10 then [digit_char n] else show_nat (n div 10) @ [digit_char (n mod 10)])"
  by pat_completeness auto
termination
  by (relation "measure id") auto

declare show_nat.simps [simp del]

definition show_int :: "int \<Rightarrow> string" where
  "show_int k = (if k < 0 then CHR ''-'' # show_nat (nat (- k)) else show_nat (nat k))"

text \<open>Reading a stream back as its lines; the last line may lack its newline.\<close>

fun lines_of :: "string \<Rightarrow> string list" where
  "lines_of [] = []"
| "lines_of (c # cs) =
     (if c = newline then [] # lines_of cs
      else (case lines_of cs of [] \<Rightarrow> [[c]] | l # ls \<Rightarrow> (c # l) # ls))"

definition unlines :: "string list \<Rightarrow> string" where
  "unlines ls = concat (map (\<lambda>l. l @ [newline]) ls)"

section \<open>The busy counter (gdb/count\_infinite.c)\<close>

text \<open>
  \<^verbatim>\<open>static const int PERIOD = 100000000;\<close>
  The counter \<^verbatim>\<open>i\<close> is a C \<^verbatim>\<open>int\<close>: 32 bits, two's complement. ISO C leaves the
  overflow of \<^verbatim>\<open>i++\<close> undefined; the model takes the wrap-around the machine
  addition has. \<^verbatim>\<open>%\<close> and \<^verbatim>\<open>/\<close> truncate towards zero (\<open>smod\<close>, \<open>sdiv\<close>).
\<close>

definition PERIOD :: "32 word" where
  "PERIOD = 100000000"

text \<open>
  One pass through the body of \<^verbatim>\<open>while (1)\<close>:
  \<^verbatim>\<open>i++; if (i % PERIOD == 0) printf("%d\n", i / PERIOD);\<close>
  The state is the counter and the text written so far.
\<close>

definition loop_body :: "32 word \<times> string \<Rightarrow> 32 word \<times> string" where
  "loop_body = (\<lambda>(i, out).
     let i = i + 1 in
     if sint i smod sint PERIOD = 0
     then (i, out @ show_int (sint i sdiv sint PERIOD) @ [newline])
     else (i, out))"

text \<open>
  The loop itself. Its condition is the constant 1; were it ever false, control would
  reach the end of \<^verbatim>\<open>main\<close>, which returns 0. Not returning is the value \<open>None\<close>.
\<close>

partial_function (option) while_loop :: "32 word \<times> string \<Rightarrow> int option" where
  "while_loop s = (if (1::int) \<noteq> 0 then while_loop (loop_body s) else Some 0)"

definition count_infinite_main :: "int option" where
  "count_infinite_main = while_loop (0, [])"

text \<open>The state after a given number of passes, for observing the output of the run.\<close>

definition after_increments :: "nat \<Rightarrow> 32 word \<times> string" where
  "after_increments n = (loop_body ^^ n) (0, [])"

section \<open>The fork demonstrator (posix/fork.c)\<close>

subsection \<open>What the headers and the operating system supply\<close>

text \<open>
  \<^verbatim>\<open>EXIT_SUCCESS\<close>, \<^verbatim>\<open>EXIT_FAILURE\<close>, \<^verbatim>\<open>WIFEXITED\<close> and \<^verbatim>\<open>WEXITSTATUS\<close> come from the
  system headers behind \<^verbatim>\<open>common.h\<close>; they are parameters of the model. \<open>glibc\<close> is
  the instance found on Linux, where a child that exits with code \<open>c\<close> leaves the
  status \<open>c * 256\<close>.
\<close>

record platform =
  EXIT_SUCCESS :: int
  EXIT_FAILURE :: int
  WIFEXITED :: "int \<Rightarrow> bool"
  WEXITSTATUS :: "int \<Rightarrow> int"

definition glibc :: platform where
  "glibc = \<lparr>EXIT_SUCCESS = 0, EXIT_FAILURE = 1,
             WIFEXITED = (\<lambda>st. st AND 0x7f = 0),
             WEXITSTATUS = (\<lambda>st. drop_bit 8 (st AND 0xff00))\<rparr>"

text \<open>
  The identity of a process: what \<^verbatim>\<open>getpid()\<close> and \<^verbatim>\<open>getppid()\<close> answer in it. The
  program can only query it.
\<close>

record process =
  getpid :: int
  getppid :: int

text \<open>
  The answers of the operating system in one run: the identity of the process that
  starts \<^verbatim>\<open>main\<close>, the value \<^verbatim>\<open>fork()\<close> returns to it (\<open>-1\<close>, or the id given to
  the child), the status \<^verbatim>\<open>wait\<close> stores, the text \<^verbatim>\<open>perror\<close> prints for
  \<^verbatim>\<open>errno\<close>, and the diagnostic a failed \<^verbatim>\<open>assert\<close> writes, whose format the C library
  chooses, for the source line and the text of the asserted expression.
\<close>

record os =
  self :: process
  fork_ret :: int
  wait_status :: int
  strerror_text :: string
  assert_text :: "nat \<Rightarrow> string \<Rightarrow> string"

text \<open>How a process ends: \<^verbatim>\<open>exit(code)\<close> or \<^verbatim>\<open>return code\<close> from \<^verbatim>\<open>main\<close>, or
  \<^verbatim>\<open>abort()\<close> after a failed \<^verbatim>\<open>assert\<close>.\<close>

datatype outcome = Exit int | Abort

text \<open>
  The memory of one process: the four locals of \<^verbatim>\<open>main\<close>, and the text the process
  has passed to its two streams. Standard error is unbuffered. Standard output may be
  buffered: what was passed to it after the last flush reaches the terminal at
  \<^verbatim>\<open>exit\<close>, and may be lost at \<^verbatim>\<open>abort\<close>.
\<close>

record proc =
  status :: int
  i :: int
  pid :: int
  ppid :: int
  stdout :: string
  stderr :: string

record result =
  how :: outcome
  final :: proc

record run =
  parent :: result
  child :: "result option"

subsection \<open>The program\<close>

definition printf :: "string \<Rightarrow> proc \<Rightarrow> proc" where
  "printf txt s = s\<lparr>stdout := stdout s @ txt\<rparr>"

definition perror :: "os \<Rightarrow> string \<Rightarrow> proc \<Rightarrow> proc" where
  "perror sys msg s = s\<lparr>stderr := stderr s @ msg @ '': '' @ strerror_text sys @ [newline]\<rparr>"

text \<open>
  A failed \<^verbatim>\<open>assert\<close> writes its diagnostic to standard error; the caller then ends
  with \<open>Abort\<close>.
\<close>

definition assert_fail :: "os \<Rightarrow> nat \<Rightarrow> string \<Rightarrow> proc \<Rightarrow> proc" where
  "assert_fail sys line expr s = s\<lparr>stderr := stderr s @ assert_text sys line expr\<rparr>"

text \<open>
  \<^verbatim>\<open>printf("%s ", msg);\<close>
  \<^verbatim>\<open>printf("pid=%jd ppid=%jd\n", (intmax_t)getpid(), (intmax_t)getppid());\<close>
\<close>

definition print_pid :: "process \<Rightarrow> string \<Rightarrow> proc \<Rightarrow> proc" where
  "print_pid me msg s =
     printf (''pid='' @ show_int (getpid me) @ '' ppid='' @ show_int (getppid me) @ [newline])
       (printf (msg @ '' '') s)"

text \<open>\<^verbatim>\<open>wait(&status)\<close>: the status of the terminated child is stored in \<^verbatim>\<open>status\<close>.\<close>

definition wait :: "os \<Rightarrow> proc \<Rightarrow> proc" where
  "wait sys s = s\<lparr>status := wait_status sys\<rparr>"

text \<open>
  The code after the check of \<^verbatim>\<open>fork()\<close>'s result, from the second \<^verbatim>\<open>print_pid\<close> to the
  end of \<^verbatim>\<open>main\<close>. Both processes execute it, each on its own memory and under its own
  identity \<open>me\<close>.
\<close>

definition after_fork :: "platform \<Rightarrow> os \<Rightarrow> process \<Rightarrow> proc \<Rightarrow> result" where
  "after_fork pl sys me s0 =
    (let s1 = print_pid me ''after fork'' s0 in
     if pid s1 = 0 then
       (let s2 = print_pid me ''inside (pid == 0)'' s1;
            s3 = s2\<lparr>pid := getpid me\<rparr>
        in if pid s3 = - 1 then
             \<lparr>how = Exit (EXIT_FAILURE pl), final = perror sys ''getpid'' s3\<rparr>
           else if \<not> (pid s3 \<noteq> ppid s3) then
             \<lparr>how = Abort, final = assert_fail sys 119 ''pid != ppid'' s3\<rparr>
           else
             (let s4 = s3\<lparr>i := i s3 + 1\<rparr>
              in \<lparr>how = Exit (EXIT_SUCCESS pl), final = s4\<rparr>))
     else
       (let s2 = print_pid me ''after (pid == 0)'' s1;
            s3 = wait sys s2
        in if WIFEXITED pl (status s3) then
             (if \<not> (status s3 = WEXITSTATUS pl (EXIT_SUCCESS pl)) then
                \<lparr>how = Abort,
                 final = assert_fail sys 140 ''status == WEXITSTATUS(EXIT_SUCCESS)'' s3\<rparr>
              else
                (let s4 = print_pid me ''after wait'' s3;
                     s5 = printf (''fork() return = '' @ show_int (pid s4) @ [newline]) s4
                 in if \<not> (i s5 = 0) then
                      \<lparr>how = Abort, final = assert_fail sys 157 ''i == 0'' s5\<rparr>
                    else \<lparr>how = Exit (EXIT_SUCCESS pl), final = s5\<rparr>))
           else
             \<lparr>how = Abort,
              final = assert_fail sys 143 ''false'' (perror sys ''execl abnormal exit'' s3)\<rparr>))"

text \<open>
  A process enters \<^verbatim>\<open>main\<close> with indeterminate values in its locals (\<open>junk\<close>) and
  nothing written.
\<close>

definition at_entry :: "proc \<Rightarrow> proc" where
  "at_entry junk = junk\<lparr>stdout := [], stderr := []\<rparr>"

text \<open>
  \<^verbatim>\<open>main\<close>. On success \<^verbatim>\<open>fork()\<close> leaves two processes: the caller, where it returns the
  child's id, and the child, a copy of the caller's memory where it returns 0. Both
  streams were flushed just before, so the child has no pending text of the parent to
  write again. The child's parent is the caller.
\<close>

definition fork_main :: "platform \<Rightarrow> os \<Rightarrow> proc \<Rightarrow> run" where
  "fork_main pl sys junk =
    (let me = self sys;
         s1 = (at_entry junk)\<lparr>i := 0\<rparr>;
         s2 = s1\<lparr>ppid := getpid me\<rparr>
     in if ppid s2 = - 1 then
          \<lparr>parent = \<lparr>how = Exit (EXIT_FAILURE pl), final = perror sys ''getpid'' s2\<rparr>,
           child = None\<rparr>
        else
          (let s3 = print_pid me ''before fork'' s2;
               s4 = s3\<lparr>pid := fork_ret sys\<rparr>
           in if pid s4 = - 1 then
                \<lparr>parent = \<lparr>how = Abort,
                            final = assert_fail sys 98 ''false'' (perror sys ''fork'' s4)\<rparr>,
                 child = None\<rparr>
              else
                \<lparr>parent = after_fork pl sys me s4,
                 child = Some (after_fork pl sys \<lparr>getpid = fork_ret sys, getppid = getpid me\<rparr>
                                 (s4\<lparr>pid := 0, stdout := [], stderr := []\<rparr>))\<rparr>))"

subsection \<open>Vocabulary of the properties\<close>

text \<open>The line \<^verbatim>\<open>print_pid\<close> writes for a tag, without its newline.\<close>

definition pid_line :: "string \<Rightarrow> process \<Rightarrow> string" where
  "pid_line tag me = tag @ '' pid='' @ show_int (getpid me) @ '' ppid='' @ show_int (getppid me)"

text \<open>How many lines of a stream begin with a tag.\<close>

definition tagged :: "string \<Rightarrow> string \<Rightarrow> nat" where
  "tagged tag txt = length (filter (prefix tag) (lines_of txt))"

text \<open>
  POSIX on the value \<^verbatim>\<open>wait\<close> stores: it is 0 exactly when the child terminated
  normally with exit code 0.
\<close>

definition posix_status :: "platform \<Rightarrow> int \<Rightarrow> bool" where
  "posix_status pl st = ((st = 0) = (WIFEXITED pl st \<and> WEXITSTATUS pl st = 0))"

text \<open>The run shown in the header comment of the source, and some stack contents.\<close>

definition sample_os :: os where
  "sample_os = \<lparr>self = \<lparr>getpid = 16026, getppid = 14381\<rparr>, fork_ret = 16031,
                 wait_status = 0, strerror_text = ''Success'',
                 assert_text = (\<lambda>line expr. ''fork: fork.c:'' @ show_nat line @ '': main: Assertion '' @
                                  expr @ '' failed.'' @ [newline])\<rparr>"

definition sample_junk :: proc where
  "sample_junk = \<lparr>status = 32767, i = - 5, pid = 7, ppid = 99, stdout = ''x'', stderr = ''y''\<rparr>"

section \<open>Properties of the text model\<close>

lemma lines_of_line: "newline \<notin> set l \<Longrightarrow> lines_of (l @ newline # r) = l # lines_of r"
  by (induction l) auto

lemma lines_of_unlines: "\<forall>l \<in> set ls. newline \<notin> set l \<Longrightarrow> lines_of (unlines ls) = ls"
  by (induction ls) (simp_all add: unlines_def lines_of_line)

lemma unlines_snoc: "unlines (ls @ [l]) = unlines ls @ l @ [newline]"
  by (simp add: unlines_def)

lemma digit_char_set: "d < 10 \<Longrightarrow> digit_char d \<in> set ''0123456789''"
proof -
  assume "d < 10"
  then have "d \<in> {0, 1, 2, 3, 4, 5, 6, 7, 8, 9}" by auto
  then show ?thesis by (auto simp: digit_char_def)
qed

lemma show_nat_digits: "set (show_nat n) \<subseteq> set ''0123456789''"
proof (induction n rule: show_nat.induct)
  case (1 n)
  show ?case
  proof (cases "n < 10")
    case True
    then show ?thesis using digit_char_set [of n] by (subst show_nat.simps) simp
  next
    case False
    have "n mod 10 < 10" by simp
    then have "digit_char (n mod 10) \<in> set ''0123456789''" by (rule digit_char_set)
    with False 1 show ?thesis by (subst show_nat.simps) simp
  qed
qed

lemma show_int_no_newline: "newline \<notin> set (show_int k)"
  using show_nat_digits [of "nat k"] show_nat_digits [of "nat (- k)"]
  by (auto simp: show_int_def newline_def)

lemma lines_of_numbers: "lines_of (unlines (map show_int ks)) = map show_int ks"
  by (rule lines_of_unlines) (simp add: show_int_no_newline)

text \<open>Decimal printing loses nothing: the text determines the number.\<close>

lemma digit_char_inj: "a < 10 \<Longrightarrow> b < 10 \<Longrightarrow> digit_char a = digit_char b \<Longrightarrow> a = b"
proof -
  assume "a < 10" "b < 10" and e: "digit_char a = digit_char b"
  then have "a \<in> {0, 1, 2, 3, 4, 5, 6, 7, 8, 9}" "b \<in> {0, 1, 2, 3, 4, 5, 6, 7, 8, 9}" by auto
  with e show ?thesis by (auto simp: digit_char_def)
qed

lemma show_nat_length:
  "length (show_nat n) = (if n < 10 then 1 else Suc (length (show_nat (n div 10))))"
  by (subst show_nat.simps) simp

lemma show_nat_not_Nil: "show_nat n \<noteq> []"
  by (subst show_nat.simps) simp

lemma show_nat_inj: "show_nat n = show_nat m \<Longrightarrow> n = m"
proof (induction n arbitrary: m rule: show_nat.induct)
  case (1 n)
  show ?case
  proof (cases "n < 10")
    case True
    have "m < 10"
    proof (rule ccontr)
      assume "\<not> m < 10"
      then have "length (show_nat m) \<noteq> 1"
        using show_nat_not_Nil [of "m div 10"] by (simp add: show_nat_length)
      moreover have "length (show_nat n) = 1" using True by (simp add: show_nat_length)
      ultimately show False using "1.prems" by simp
    qed
    with True "1.prems" show ?thesis
      by (simp add: show_nat.simps digit_char_inj)
  next
    case False
    have m: "\<not> m < 10"
    proof
      assume "m < 10"
      then have "length (show_nat m) = 1" by (simp add: show_nat_length)
      moreover have "length (show_nat n) \<noteq> 1"
        using False show_nat_not_Nil [of "n div 10"] by (simp add: show_nat_length)
      ultimately show False using "1.prems" by simp
    qed
    from "1.prems" False m
    have "show_nat (n div 10) @ [digit_char (n mod 10)] =
          show_nat (m div 10) @ [digit_char (m mod 10)]"
      by (simp add: show_nat.simps [of n] show_nat.simps [of m])
    then have "show_nat (n div 10) = show_nat (m div 10)"
      "digit_char (n mod 10) = digit_char (m mod 10)"
      by simp_all
    then have "n div 10 = m div 10" "n mod 10 = m mod 10"
      using "1.IH" [OF False] by (simp_all add: digit_char_inj)
    then show ?thesis
      by (metis div_mult_mod_eq)
  qed
qed

lemma show_nat_no_minus: "CHR ''-'' \<notin> set (show_nat n)"
  using show_nat_digits [of n] by auto

lemma show_int_inj: "show_int a = show_int b \<Longrightarrow> a = b"
proof -
  assume e: "show_int a = show_int b"
  have sign: "CHR ''-'' # xs \<noteq> show_nat n" "show_nat n \<noteq> CHR ''-'' # xs" for n xs
    using show_nat_no_minus [of n] by (metis list.set_intros(1))+
  show ?thesis
  proof (cases "a < 0")
    case True
    then have "b < 0" using e sign by (auto simp: show_int_def split: if_splits)
    with True e have "nat (- a) = nat (- b)" by (auto simp: show_int_def dest: show_nat_inj)
    with True \<open>b < 0\<close> show ?thesis by simp
  next
    case False
    then have "\<not> b < 0" using e sign by (auto simp: show_int_def split: if_splits)
    with False e have "nat a = nat b" by (auto simp: show_int_def dest: show_nat_inj)
    with False \<open>\<not> b < 0\<close> show ?thesis by simp
  qed
qed

section \<open>The busy counter: proofs\<close>

subsection \<open>The loop never returns\<close>

lemma while_loop_Some_False: "while_loop s = Some y \<Longrightarrow> False"
  by (rule while_loop.raw_induct [where P = "\<lambda>_ _. False"]) (simp_all split: if_splits)

lemma while_loop_never: "while_loop s = None"
  using while_loop_Some_False [of s] by (cases "while_loop s") auto

lemma after_increments_Suc: "after_increments (Suc n) = loop_body (after_increments n)"
  by (simp add: after_increments_def)

lemma main_unrolled: "count_infinite_main = while_loop (after_increments n)"
proof (induction n)
  case 0
  show ?case by (simp add: count_infinite_main_def after_increments_def)
next
  case (Suc n)
  have "while_loop (after_increments n) = while_loop (loop_body (after_increments n))"
    by (subst while_loop.simps) simp
  with Suc show ?case by (simp add: after_increments_Suc)
qed

text \<open>
  C9. The busy counter never terminates: \<^verbatim>\<open>main\<close> does not return, and from the state
  after any number of passes (each of them a state the run goes through) the loop
  executes its body once more and continues from the next state.
\<close>

theorem busy_counter_never_returns:
  "count_infinite_main = None \<and>
   (\<forall>n. count_infinite_main = while_loop (after_increments n) \<and>
        while_loop (after_increments n) = while_loop (loop_body (after_increments n)) \<and>
        loop_body (after_increments n) = after_increments (Suc n))"
proof -
  have "while_loop (after_increments n) = while_loop (loop_body (after_increments n))" for n
    by (subst while_loop.simps) simp
  moreover have "count_infinite_main = None"
    by (simp add: count_infinite_main_def while_loop_never)
  ultimately show ?thesis
    using main_unrolled by (simp add: after_increments_Suc)
qed

subsection \<open>The counter as a 32-bit value\<close>

lemma sint_of_nat_32:
  "sint (of_nat n :: 32 word) = (int n + 2147483648) mod 4294967296 - 2147483648"
  by (simp add: sint_uint signed_take_bit_eq_take_bit_shift take_bit_eq_mod unsigned_of_nat
      zmod_int mod_simps)

lemma sint_PERIOD: "sint PERIOD = 100000000"
  by (simp add: PERIOD_def)

lemma loop_body_of_nat:
  "loop_body (of_nat n, out) =
     (let v = (int (Suc n) + 2147483648) mod 4294967296 - 2147483648 in
      (of_nat (Suc n),
       if v smod 100000000 = 0 then out @ show_int (v sdiv 100000000) @ [newline] else out))"
proof -
  have "(of_nat n :: 32 word) + 1 = of_nat (Suc n)" by simp
  then show ?thesis
    unfolding loop_body_def
    by (simp only: prod.case Let_def sint_of_nat_32 sint_PERIOD if_distrib split: if_splits) auto
qed

lemma smod_nonneg: "0 \<le> k \<Longrightarrow> 0 < l \<Longrightarrow> k smod l = k mod (l::int)"
  by (simp add: signed_modulo_int_def sgn_if)

lemma sdiv_nonneg: "0 \<le> k \<Longrightarrow> 0 < l \<Longrightarrow> k sdiv l = k div (l::int)"
  by (simp add: signed_divide_int_def sgn_if)

lemma smod_negative: "k < 0 \<Longrightarrow> 0 < l \<Longrightarrow> k smod l = - ((- k) mod (l::int))"
  by (simp add: signed_modulo_int_def sgn_if)

lemma int_mod_P: "int k mod 100000000 = int (k mod 100000000)"
  by (simp add: zmod_int)

lemma int_div_P: "int k div 100000000 = int (k div 100000000)"
  by (simp add: zdiv_int)

subsection \<open>The output before the counter overflows\<close>

lemma first_lines:
  "n < 2147483648 \<Longrightarrow>
   after_increments n = (of_nat n, unlines (map show_int [1..int (n div 100000000)]))"
proof (induction n)
  case 0
  show ?case by (simp add: after_increments_def unlines_def)
next
  case (Suc n)
  then have IH: "after_increments n = (of_nat n, unlines (map show_int [1..int (n div 100000000)]))"
    by simp
  have v: "(int (Suc n) + 2147483648) mod 4294967296 - 2147483648 = int (Suc n)"
    using Suc.prems by simp
  have nn: "0 \<le> int (Suc n)" by simp
  show ?case
  proof (cases "Suc n mod 100000000 = 0")
    case True
    then have d: "Suc n div 100000000 = Suc (n div 100000000)"
      by (simp add: div_Suc)
    have m: "int (Suc n) mod 100000000 = 0"
      unfolding int_mod_P True by simp
    have q: "int (Suc n) div 100000000 = int (Suc (n div 100000000))"
      unfolding int_div_P d ..
    have u: "[1..int (Suc (n div 100000000))] =
             [1..int (n div 100000000)] @ [int (Suc (n div 100000000))]"
      by (simp add: upto_rec2)
    show ?thesis
      unfolding after_increments_Suc IH loop_body_of_nat Let_def v
      by (simp only: smod_nonneg [OF nn] sdiv_nonneg [OF nn] m q d u map_append)
        (simp add: unlines_snoc)
  next
    case False
    then have d: "Suc n div 100000000 = n div 100000000"
      by (simp add: div_Suc)
    have m: "int (Suc n) mod 100000000 \<noteq> 0"
      unfolding int_mod_P using False by simp
    show ?thesis
      unfolding after_increments_Suc IH loop_body_of_nat Let_def v
      by (simp only: smod_nonneg [OF nn] m d) simp
  qed
qed

lemma output_below_overflow:
  "n < 2147483648 \<Longrightarrow>
   snd (after_increments n) = unlines (map show_int [1..int (n div 100000000)])"
  by (simp add: first_lines)

text \<open>
  C2, as amended. For every \<open>k\<close> from 1 to 21 (the multiples of the period an
  \<^verbatim>\<open>int\<close> can hold): after exactly \<open>k * 100000000\<close> increments the output consists of
  the \<open>k\<close> lines \<open>1\<close>, ..., \<open>k\<close>, each ended by a newline, so the \<open>k\<close>-th line is
  \<open>k\<close>; and from the \<open>(k-1)\<close>-th multiple up to the increment before the \<open>k\<close>-th one
  the output is just the first \<open>k - 1\<close> lines: no line is written in between.
\<close>

theorem busy_counter_lines:
  assumes "1 \<le> k" "k \<le> 21"
  shows "snd (after_increments (k * 100000000)) = unlines (map show_int [1..int k]) \<and>
         length (lines_of (snd (after_increments (k * 100000000)))) = k \<and>
         lines_of (snd (after_increments (k * 100000000))) ! (k - 1) = show_int (int k) \<and>
         (\<forall>n. (k - 1) * 100000000 \<le> n \<and> n < k * 100000000 \<longrightarrow>
              snd (after_increments n) = unlines (map show_int [1..int k - 1]))"
proof -
  have small: "k * 100000000 < 2147483648"
    using assms by simp
  have out: "snd (after_increments (k * 100000000)) = unlines (map show_int [1..int k])"
    using output_below_overflow [OF small] by simp
  have len: "length (map show_int [1..int k]) = k"
    by simp
  have "[1..int k] ! (k - 1) = int k"
    using assms by simp
  then have kth: "map show_int [1..int k] ! (k - 1) = show_int (int k)"
    using assms by simp
  have between: "snd (after_increments n) = unlines (map show_int [1..int k - 1])"
    if "(k - 1) * 100000000 \<le> n \<and> n < k * 100000000" for n
  proof -
    from that have "n < 2147483648" using small by simp
    moreover have "n div 100000000 = k - 1"
      using that by (intro div_nat_eqI) (simp_all add: algebra_simps)
    moreover have "int (k - 1) = int k - 1" using assms by simp
    ultimately show ?thesis
      by (simp add: output_below_overflow)
  qed
  show ?thesis
    unfolding out lines_of_numbers using len kth between by blast
qed

theorem busy_counter_lines_witness:
  "(1::nat) \<le> 3 \<and> (3::nat) \<le> 21 \<and>
   snd (after_increments (3 * 100000000)) = ''1'' @ [newline] @ ''2'' @ [newline] @ ''3'' @ [newline] \<and>
   lines_of (snd (after_increments (3 * 100000000))) ! (3 - 1) = ''3'' \<and>
   (3 - 1) * 100000000 \<le> (250000000::nat) \<and> (250000000::nat) < 3 * 100000000 \<and>
   snd (after_increments 250000000) = ''1'' @ [newline] @ ''2'' @ [newline]"
proof -
  have r: "(1::nat) \<le> 3" "(3::nat) \<le> 21" by simp_all
  have n: "(3 - 1) * 100000000 \<le> (250000000::nat) \<and> (250000000::nat) < 3 * 100000000" by simp
  have u: "[1..int 3] = [1, 2, 3]" "[1..int 3 - 1] = [1, 2]" by (simp_all add: upto_rec1)
  from busy_counter_lines [OF r] n
  have "snd (after_increments (3 * 100000000)) = unlines (map show_int [1..int 3])"
    "lines_of (snd (after_increments (3 * 100000000))) ! (3 - 1) = show_int (int 3)"
    "snd (after_increments 250000000) = unlines (map show_int [1..int 3 - 1])"
    by blast+
  then show ?thesis
    unfolding u by (simp add: unlines_def show_int_def show_nat.simps digit_char_def)
qed

subsection \<open>The output after the counter has wrapped\<close>

lemma quiet:
  "m \<le> n \<Longrightarrow> after_increments m = (of_nat m, out) \<Longrightarrow>
   (\<And>j. m < j \<Longrightarrow> j \<le> n \<Longrightarrow>
      ((int j + 2147483648) mod 4294967296 - 2147483648) smod 100000000 \<noteq> 0) \<Longrightarrow>
   after_increments n = (of_nat n, out)"
proof (induction n rule: dec_induct)
  case base
  then show ?case by simp
next
  case (step n)
  have IH: "after_increments n = (of_nat n, out)"
    using step by simp
  have "((int (Suc n) + 2147483648) mod 4294967296 - 2147483648) smod 100000000 \<noteq> 0"
    using step.prems(2) [of "Suc n"] step.hyps by simp
  then show ?case
    unfolding after_increments_Suc IH loop_body_of_nat Let_def by (simp only: if_False)
qed

lemma wrap_upper_half:
  assumes "2147483647 < j" "j < 4294967296"
  shows "(int j + 2147483648) mod 4294967296 - 2147483648 = int j - 4294967296"
proof -
  have "(int j + 2147483648) mod 4294967296 = (int j + 2147483648 - 4294967296) mod 4294967296"
    by (simp only: minus_mod_self2)
  also have "\<dots> = int j - 2147483648"
    using assms by simp
  finally show ?thesis by simp
qed

lemma no_multiple_between:
  assumes "100000000 * q < x" "x < 100000000 * (q + 1)"
  shows "(x::int) mod 100000000 \<noteq> 0"
proof
  assume "x mod 100000000 = 0"
  then obtain r where r: "x = 100000000 * r" by auto
  from assms have "q < r" "r < q + 1" unfolding r by simp_all
  then show False by simp
qed

lemma quiet_after_21:
  assumes "2147483647 < j" "j < 2194967296"
  shows "((int j + 2147483648) mod 4294967296 - 2147483648) smod 100000000 \<noteq> 0"
proof -
  have "(4294967296 - int j) mod 100000000 \<noteq> 0"
    using assms by (intro no_multiple_between [where q = 21]) simp_all
  then show ?thesis
    using assms by (simp add: wrap_upper_half smod_negative)
qed

lemma quiet_after_minus_21:
  assumes "2194967296 < j" "j \<le> 2200000000"
  shows "((int j + 2147483648) mod 4294967296 - 2147483648) smod 100000000 \<noteq> 0"
proof -
  have "(4294967296 - int j) mod 100000000 \<noteq> 0"
    using assms by (intro no_multiple_between [where q = 20]) simp_all
  then show ?thesis
    using assms by (simp add: wrap_upper_half smod_negative)
qed

lemma at_int_max:
  "after_increments 2147483647 = (of_nat 2147483647, unlines (map show_int [1..21]))"
  using first_lines [of 2147483647] by simp

lemma before_wrapped_line:
  "after_increments 2194967295 = (of_nat 2194967295, unlines (map show_int [1..21]))"
  by (rule quiet [OF _ at_int_max]) (simp_all add: quiet_after_21)

lemma wrapped_line:
  "after_increments 2194967296 =
     (of_nat 2194967296, unlines (map show_int [1..21]) @ ''-21'' @ [newline])"
proof -
  have "after_increments (Suc 2194967295) = loop_body (after_increments 2194967295)"
    by (rule after_increments_Suc)
  also have "\<dots> = (of_nat (Suc 2194967295), unlines (map show_int [1..21]) @ ''-21'' @ [newline])"
    unfolding before_wrapped_line loop_body_of_nat
    by (simp add: signed_modulo_int_def signed_divide_int_def show_int_def show_nat.simps
        digit_char_def)
  finally show ?thesis by simp
qed

lemma at_22_periods:
  "after_increments 2200000000 =
     (of_nat 2200000000, unlines (map show_int [1..21]) @ ''-21'' @ [newline])"
  by (rule quiet [OF _ wrapped_line]) (simp_all add: quiet_after_minus_21)

text \<open>
  C2 as stated fails at \<open>k = 22\<close>. 2200000000 does not fit an \<^verbatim>\<open>int\<close>: the counter
  has wrapped to negative values, the 22nd line is \<open>-21\<close>, and it was written at
  increment 2194967296, strictly between the 21st and the 22nd multiple of the period.
\<close>

theorem busy_counter_line_22_counterexample:
  "lines_of (snd (after_increments (22 * 100000000))) ! (22 - 1) = ''-21'' \<and>
   lines_of (snd (after_increments (22 * 100000000))) ! (22 - 1) \<noteq> show_int 22 \<and>
   (21 * 100000000 < (2194967296::nat) \<and> (2194967296::nat) < 22 * 100000000 \<and>
    snd (after_increments 2194967296) \<noteq> snd (after_increments (21 * 100000000)))"
proof -
  have nl: "\<forall>l \<in> set (map show_int [1..21] @ [''-21'']). newline \<notin> set l"
    using show_int_no_newline by (auto simp: newline_def)
  have snd_22: "snd (after_increments (22 * 100000000)) = unlines (map show_int [1..21] @ [''-21''])"
    using at_22_periods by (simp add: unlines_snoc)
  have "length (map show_int [1..21]) = 21" by simp
  then have "(map show_int [1..21] @ [''-21'']) ! 21 = ''-21''"
    by (metis nth_append_length)
  then have line: "lines_of (snd (after_increments (22 * 100000000))) ! (22 - 1) = ''-21''"
    unfolding snd_22 lines_of_unlines [OF nl] by simp
  have "snd (after_increments (21 * 100000000)) = unlines (map show_int [1..21])"
    using output_below_overflow [of "21 * 100000000"] by simp
  then have "snd (after_increments 2194967296) \<noteq> snd (after_increments (21 * 100000000))"
    by (simp add: wrapped_line)
  with line show ?thesis
    by (simp add: show_int_def show_nat.simps digit_char_def)
qed

section \<open>The fork demonstrator: proofs\<close>

subsection \<open>The lines of a run\<close>

lemma print_pid_eq: "print_pid me msg s = s\<lparr>stdout := stdout s @ pid_line msg me @ [newline]\<rparr>"
  by (simp add: print_pid_def printf_def pid_line_def)

lemma no_newline_in_lines:
  "newline \<notin> set (pid_line ''before fork'' me)"
  "newline \<notin> set (pid_line ''after fork'' me)"
  "newline \<notin> set (pid_line ''inside (pid == 0)'' me)"
  "newline \<notin> set (pid_line ''after (pid == 0)'' me)"
  "newline \<notin> set (pid_line ''after wait'' me)"
  using show_int_no_newline [of "getpid me"] show_int_no_newline [of "getppid me"]
  by (auto simp: pid_line_def newline_def)

lemma no_newline_in_return_line: "newline \<notin> set (''fork() return = '' @ show_int k)"
  using show_int_no_newline [of k] by (auto simp: newline_def)

lemma before_fork_lines:
  "lines_of (unlines [pid_line ''before fork'' me]) = [pid_line ''before fork'' me]"
  using no_newline_in_lines [of me] by (intro lines_of_unlines) simp

lemma waiting_lines:
  "lines_of (unlines [pid_line ''before fork'' me, pid_line ''after fork'' me,
                      pid_line ''after (pid == 0)'' me]) =
   [pid_line ''before fork'' me, pid_line ''after fork'' me, pid_line ''after (pid == 0)'' me]"
  using no_newline_in_lines [of me] by (intro lines_of_unlines) simp

lemma parent_lines:
  "lines_of (unlines [pid_line ''before fork'' me, pid_line ''after fork'' me,
                      pid_line ''after (pid == 0)'' me, pid_line ''after wait'' me,
                      ''fork() return = '' @ show_int k]) =
   [pid_line ''before fork'' me, pid_line ''after fork'' me,
    pid_line ''after (pid == 0)'' me, pid_line ''after wait'' me,
    ''fork() return = '' @ show_int k]"
  using no_newline_in_lines [of me] no_newline_in_return_line [of k]
  by (intro lines_of_unlines) simp

lemma child_lines:
  "lines_of (unlines [pid_line ''after fork'' me, pid_line ''inside (pid == 0)'' me]) =
   [pid_line ''after fork'' me, pid_line ''inside (pid == 0)'' me]"
  using no_newline_in_lines [of me] by (intro lines_of_unlines) simp

lemma tagged_parent:
  "tagged tag (unlines [pid_line ''before fork'' me, pid_line ''after fork'' me,
                        pid_line ''after (pid == 0)'' me, pid_line ''after wait'' me,
                        ''fork() return = '' @ show_int k]) =
   length (filter (prefix tag)
     [pid_line ''before fork'' me, pid_line ''after fork'' me,
      pid_line ''after (pid == 0)'' me, pid_line ''after wait'' me,
      ''fork() return = '' @ show_int k])"
  unfolding tagged_def parent_lines ..

lemma tagged_child:
  "tagged tag (unlines [pid_line ''after fork'' me, pid_line ''inside (pid == 0)'' me]) =
   length (filter (prefix tag) [pid_line ''after fork'' me, pid_line ''inside (pid == 0)'' me])"
  unfolding tagged_def child_lines ..

lemma tagged_waiting:
  "tagged tag (unlines [pid_line ''before fork'' me, pid_line ''after fork'' me,
                        pid_line ''after (pid == 0)'' me]) =
   length (filter (prefix tag)
     [pid_line ''before fork'' me, pid_line ''after fork'' me, pid_line ''after (pid == 0)'' me])"
  unfolding tagged_def waiting_lines ..

subsection \<open>The four ways a run can go\<close>

text \<open>\<^verbatim>\<open>getpid()\<close> fails in the starting process: nothing is printed, no child exists.\<close>

lemma parent_getpid_fails:
  assumes "getpid (self sys) = - 1"
  shows "fork_main pl sys junk =
    \<lparr>parent = \<lparr>how = Exit (EXIT_FAILURE pl),
                final = junk\<lparr>i := 0, ppid := - 1, stdout := [],
                               stderr := ''getpid: '' @ strerror_text sys @ [newline]\<rparr>\<rparr>,
     child = None\<rparr>"
  using assms by (simp add: fork_main_def at_entry_def perror_def Let_def)

text \<open>\<^verbatim>\<open>fork()\<close> fails: one line is out, no child exists.\<close>

lemma parent_fork_fails:
  assumes "getpid (self sys) \<noteq> - 1" "fork_ret sys = - 1"
  shows "fork_main pl sys junk =
    \<lparr>parent = \<lparr>how = Abort,
                final = junk\<lparr>i := 0, pid := - 1, ppid := getpid (self sys),
                               stdout := unlines [pid_line ''before fork'' (self sys)],
                               stderr := ''fork: '' @ strerror_text sys @ [newline] @
                                         assert_text sys 98 ''false''\<rparr>\<rparr>,
     child = None\<rparr>"
  using assms
  by (simp add: fork_main_def at_entry_def perror_def assert_fail_def print_pid_eq Let_def
      unlines_def)

text \<open>The child, once \<^verbatim>\<open>fork()\<close> has succeeded.\<close>

lemma child_run:
  assumes "getpid (self sys) \<noteq> - 1" "fork_ret sys \<noteq> - 1"
  shows "child (fork_main pl sys junk) = Some
    (let me = \<lparr>getpid = fork_ret sys, getppid = getpid (self sys)\<rparr>;
         s = junk\<lparr>pid := fork_ret sys, ppid := getpid (self sys),
                    stdout := unlines [pid_line ''after fork'' me, pid_line ''inside (pid == 0)'' me],
                    stderr := []\<rparr>
     in if fork_ret sys = getpid (self sys) then
          \<lparr>how = Abort, final = s\<lparr>i := 0, stderr := assert_text sys 119 ''pid != ppid''\<rparr>\<rparr>
        else \<lparr>how = Exit (EXIT_SUCCESS pl), final = s\<lparr>i := 1\<rparr>\<rparr>)"
  using assms
  by (simp add: fork_main_def after_fork_def at_entry_def assert_fail_def print_pid_eq Let_def
      unlines_def)

text \<open>The parent, once \<^verbatim>\<open>fork()\<close> has succeeded.\<close>

lemma parent_run:
  assumes "getpid (self sys) \<noteq> - 1" "fork_ret sys \<noteq> - 1" "fork_ret sys \<noteq> 0"
  shows "parent (fork_main pl sys junk) =
    (let me = self sys;
         s = junk\<lparr>status := wait_status sys, i := 0, pid := fork_ret sys, ppid := getpid me,
                    stdout := unlines [pid_line ''before fork'' me, pid_line ''after fork'' me,
                                       pid_line ''after (pid == 0)'' me],
                    stderr := []\<rparr>
     in if WIFEXITED pl (wait_status sys) then
          if wait_status sys = WEXITSTATUS pl (EXIT_SUCCESS pl) then
            \<lparr>how = Exit (EXIT_SUCCESS pl),
             final = s\<lparr>stdout := unlines [pid_line ''before fork'' me, pid_line ''after fork'' me,
                                           pid_line ''after (pid == 0)'' me, pid_line ''after wait'' me,
                                           ''fork() return = '' @ show_int (fork_ret sys)]\<rparr>\<rparr>
          else \<lparr>how = Abort,
                final = s\<lparr>stderr := assert_text sys 140 ''status == WEXITSTATUS(EXIT_SUCCESS)''\<rparr>\<rparr>
        else \<lparr>how = Abort,
              final = s\<lparr>stderr := ''execl abnormal exit: '' @ strerror_text sys @ [newline] @
                                   assert_text sys 143 ''false''\<rparr>\<rparr>)"
  using assms
  by (simp add: fork_main_def after_fork_def at_entry_def print_pid_eq printf_def perror_def wait_def
      assert_fail_def Let_def unlines_def)

lemma parent_completes:
  assumes "getpid (self sys) \<noteq> - 1" "fork_ret sys \<noteq> - 1" "fork_ret sys \<noteq> 0"
    and w: "WIFEXITED pl (wait_status sys)"
    and e: "wait_status sys = WEXITSTATUS pl (EXIT_SUCCESS pl)"
  shows "parent (fork_main pl sys junk) =
    \<lparr>how = Exit (EXIT_SUCCESS pl),
     final = junk\<lparr>status := wait_status sys, i := 0, pid := fork_ret sys,
                    ppid := getpid (self sys),
                    stdout := unlines [pid_line ''before fork'' (self sys),
                                       pid_line ''after fork'' (self sys),
                                       pid_line ''after (pid == 0)'' (self sys),
                                       pid_line ''after wait'' (self sys),
                                       ''fork() return = '' @ show_int (fork_ret sys)],
                    stderr := []\<rparr>\<rparr>"
proof -
  from w have w': "WIFEXITED pl (WEXITSTATUS pl (EXIT_SUCCESS pl))"
    by (simp only: e [symmetric])
  from w' e show ?thesis
    unfolding parent_run [OF assms(1-3)] Let_def by simp
qed

text \<open>The child's own \<^verbatim>\<open>getpid()\<close> fails.\<close>

lemma child_getpid_fails:
  assumes "pid s = 0" "getpid me = - 1"
  shows "after_fork pl sys me s =
    \<lparr>how = Exit (EXIT_FAILURE pl),
     final = s\<lparr>pid := - 1,
               stdout := stdout s @ unlines [pid_line ''after fork'' me, pid_line ''inside (pid == 0)'' me],
               stderr := stderr s @ ''getpid: '' @ strerror_text sys @ [newline]\<rparr>\<rparr>"
  using assms by (simp add: after_fork_def print_pid_eq perror_def Let_def unlines_def)

text \<open>What the code after the fork leaves alone.\<close>

lemma after_fork_appends:
  "\<exists>rest. stdout (final (after_fork pl sys me s)) = stdout s @ rest"
  by (simp add: after_fork_def print_pid_eq printf_def perror_def wait_def assert_fail_def Let_def)

lemma after_fork_ppid: "ppid (final (after_fork pl sys me s)) = ppid s"
  by (simp add: after_fork_def print_pid_eq printf_def perror_def wait_def assert_fail_def Let_def)

lemma after_fork_parent_pid: "pid s \<noteq> 0 \<Longrightarrow> pid (final (after_fork pl sys me s)) = pid s"
  by (simp add: after_fork_def print_pid_eq printf_def perror_def wait_def assert_fail_def Let_def)

lemma parent_starts_with_before_fork:
  assumes "getpid (self sys) \<noteq> - 1"
  shows "\<exists>rest. stdout (final (parent (fork_main pl sys junk))) =
           pid_line ''before fork'' (self sys) @ newline # rest"
proof (cases "fork_ret sys = - 1")
  case True
  show ?thesis by (simp add: parent_fork_fails [OF assms True] unlines_def)
next
  case False
  let ?s = "(print_pid (self sys) ''before fork''
               ((at_entry junk)\<lparr>i := 0, ppid := getpid (self sys)\<rparr>))\<lparr>pid := fork_ret sys\<rparr>"
  have "parent (fork_main pl sys junk) = after_fork pl sys (self sys) ?s"
    using assms False by (simp add: fork_main_def Let_def)
  moreover have "stdout ?s = pid_line ''before fork'' (self sys) @ [newline]"
    by (simp add: print_pid_eq at_entry_def)
  ultimately show ?thesis
    using after_fork_appends [of pl sys "self sys" ?s] by auto
qed

lemma parent_ppid:
  assumes "getpid (self sys) \<noteq> - 1"
  shows "ppid (final (parent (fork_main pl sys junk))) = getpid (self sys)"
  using assms
  by (simp add: fork_main_def at_entry_def print_pid_eq perror_def assert_fail_def Let_def
      after_fork_ppid)

subsection \<open>The sample run and the glibc macros\<close>

lemma sample_facts:
  "getpid (self sample_os) = 16026" "getppid (self sample_os) = 14381"
  "fork_ret sample_os = 16031" "wait_status sample_os = 0"
  "self sample_os = \<lparr>getpid = 16026, getppid = 14381\<rparr>"
  by (simp_all add: sample_os_def)

lemma sample_lines:
  "pid_line tag \<lparr>getpid = 16026, getppid = 14381\<rparr> = tag @ '' pid=16026 ppid=14381''"
  "pid_line tag \<lparr>getpid = 16031, getppid = 16026\<rparr> = tag @ '' pid=16031 ppid=16026''"
  "show_int 16031 = ''16031''" "show_int 16026 = ''16026''" "show_int 14381 = ''14381''"
  by (simp_all add: pid_line_def show_int_def show_nat.simps digit_char_def)

lemma glibc_facts:
  "EXIT_SUCCESS glibc = 0" "EXIT_FAILURE glibc = 1"
  "WIFEXITED glibc st = (st AND 0x7f = 0)" "WEXITSTATUS glibc st = drop_bit 8 (st AND 0xff00)"
  by (simp_all add: glibc_def)

lemma glibc_status_0: "WIFEXITED glibc 0" "WEXITSTATUS glibc 0 = 0" "posix_status glibc 0"
  by (simp_all add: glibc_def posix_status_def)

lemma glibc_status_256: "WIFEXITED glibc 256" "WEXITSTATUS glibc 256 = 1" "posix_status glibc 256"
  by (simp_all add: glibc_def posix_status_def)

text \<open>
  With the glibc macros every status a normally terminated child leaves, \<open>c * 256\<close> for an
  exit code \<open>c\<close> from 0 to 255, is of the kind POSIX describes.
\<close>

lemma glibc_exit_statuses:
  assumes "0 \<le> c" "c \<le> 255"
  shows "WIFEXITED glibc (c * 256) \<and> WEXITSTATUS glibc (c * 256) = c \<and> posix_status glibc (c * 256)"
proof -
  have p: "c * 256 = push_bit 8 c" by (simp add: push_bit_eq_mult)
  have m: "take_bit 8 c = c" using assms by (simp add: take_bit_int_eq_self)
  have "push_bit 8 c AND mask 7 = take_bit 7 (push_bit 8 c)"
    by (simp only: take_bit_eq_mask)
  also have "\<dots> = 0"
    by (simp add: take_bit_push_bit)
  finally have a: "push_bit 8 c AND 127 = 0"
    by (simp add: mask_eq_exp_minus_1)
  have "push_bit 8 c AND push_bit 8 (mask 8) = push_bit 8 (c AND mask 8)"
    by (simp only: push_bit_and)
  also have "\<dots> = push_bit 8 c"
    by (simp only: take_bit_eq_mask [symmetric] m)
  finally have "push_bit 8 c AND 65280 = push_bit 8 c"
    by (simp add: mask_eq_exp_minus_1 push_bit_eq_mult)
  then have b: "drop_bit 8 (push_bit 8 c AND 65280) = c"
    by (simp add: drop_bit_push_bit)
  show ?thesis
    unfolding p using a b assms by (auto simp: glibc_def posix_status_def)
qed

text \<open>
  A child killed by signal \<open>sig\<close> leaves \<open>sig\<close>, or \<open>sig + 128\<close> with a core dump:
  never a status with \<^verbatim>\<open>WIFEXITED\<close>, and again of the kind POSIX describes.
\<close>

lemma glibc_signal_statuses:
  assumes "1 \<le> sig" "sig \<le> 127"
  shows "\<not> WIFEXITED glibc sig \<and> \<not> WIFEXITED glibc (sig + 128) \<and>
         posix_status glibc sig \<and> posix_status glibc (sig + 128)"
proof -
  have low: "k AND 127 = k mod 128" for k :: int
  proof -
    have "k AND mask 7 = take_bit 7 k" by (simp only: take_bit_eq_mask)
    then show ?thesis by (simp add: mask_eq_exp_minus_1 take_bit_eq_mod)
  qed
  have "sig mod 128 = sig" "(sig + 128) mod 128 = sig"
    using assms by simp_all
  with assms show ?thesis
    by (simp add: glibc_def posix_status_def low)
qed

subsection \<open>The status check after \<open>wait\<close>\<close>

text \<open>
  The source writes the check as \<^verbatim>\<open>assert(status == WEXITSTATUS(EXIT_SUCCESS))\<close>: the raw
  status is compared with the exit code extracted from the constant. On the statuses
  \<^verbatim>\<open>wait\<close> stores this decides the same as comparing the exit code extracted from the
  status with \<^verbatim>\<open>EXIT_SUCCESS\<close>, because such a status is 0 exactly for a normal exit with
  code 0.

  C1. When \<^verbatim>\<open>wait\<close> has stored a status with \<^verbatim>\<open>WIFEXITED\<close> true, the parent's assertion
  passes exactly when the exit code extracted from that status is the success code 0;
  so if the child terminated normally with exit code 0 the parent does not abort, and
  (its counter being 0) it exits with code 0; with any other exit code it aborts.
\<close>

theorem wait_status_checked:
  assumes "EXIT_SUCCESS pl = 0" "posix_status pl 0" "posix_status pl (wait_status sys)"
    and "getpid (self sys) \<noteq> - 1" "fork_ret sys \<noteq> - 1" "fork_ret sys \<noteq> 0"
    and "WIFEXITED pl (wait_status sys)"
  shows "how (parent (fork_main pl sys junk)) =
           (if WEXITSTATUS pl (wait_status sys) = EXIT_SUCCESS pl then Exit 0 else Abort)"
proof -
  from assms(1,2) have zero: "WEXITSTATUS pl (EXIT_SUCCESS pl) = 0"
    by (simp add: posix_status_def)
  from assms(3,7) have "(wait_status sys = 0) = (WEXITSTATUS pl (wait_status sys) = 0)"
    by (simp add: posix_status_def)
  with zero assms(1,7) show ?thesis
    by (simp add: parent_run [OF assms(4-6)] Let_def)
qed

theorem wait_status_checked_witness:
  "how (parent (fork_main glibc sample_os sample_junk)) = Exit 0 \<and>
   how (parent (fork_main glibc (sample_os\<lparr>wait_status := 256\<rparr>) sample_junk)) = Abort"
  using wait_status_checked [of glibc sample_os sample_junk]
    wait_status_checked [of glibc "sample_os\<lparr>wait_status := 256\<rparr>" sample_junk]
    glibc_exit_statuses [of 0] glibc_exit_statuses [of 1]
  by (simp add: sample_facts glibc_facts(1))

text \<open>
  The hypothesis on the status is needed: 128 is not a status \<^verbatim>\<open>wait\<close> stores for a
  terminated child, and on it the two comparisons part.
\<close>

lemma raw_status_compared:
  "WIFEXITED glibc 128 \<and> WEXITSTATUS glibc 128 = EXIT_SUCCESS glibc \<and> \<not> posix_status glibc 128 \<and>
   how (parent (fork_main glibc (sample_os\<lparr>wait_status := 128\<rparr>) sample_junk)) = Abort"
proof -
  have ok: "getpid (self (sample_os\<lparr>wait_status := 128\<rparr>)) \<noteq> - 1"
    "fork_ret (sample_os\<lparr>wait_status := 128\<rparr>) \<noteq> - 1" "fork_ret (sample_os\<lparr>wait_status := 128\<rparr>) \<noteq> 0"
    by (simp_all add: sample_os_def)
  show ?thesis
    by (simp add: parent_run [OF ok] Let_def) (simp add: glibc_def posix_status_def)
qed

subsection \<open>The output\<close>

text \<open>
  C3, as amended. Every checkpoint is written by \<^verbatim>\<open>print_pid\<close>, which adds one line of
  the form \<open><tag> pid=<pid> ppid=<ppid>\<close> to the output. In a run where the fork
  succeeds and the parent completes, the parent writes exactly five lines: checkpoint
  lines with the tags \<open>before fork\<close>, \<open>after fork\<close>, \<open>after (pid == 0)\<close> (the line
  before waiting) and \<open>after wait\<close>, then \<open>fork() return = <pid>\<close> with the value
  \<^verbatim>\<open>fork()\<close> returned. The child writes two checkpoint lines, tagged \<open>after fork\<close>
  and \<open>inside (pid == 0)\<close>.
\<close>

theorem fork_output_lines:
  assumes "getpid (self sys) \<noteq> - 1" "fork_ret sys \<noteq> - 1" "fork_ret sys \<noteq> 0"
    and "WIFEXITED pl (wait_status sys)" "wait_status sys = WEXITSTATUS pl (EXIT_SUCCESS pl)"
  shows "stdout (print_pid me tag s) = stdout s @ pid_line tag me @ [newline] \<and>
         lines_of (stdout (final (parent (fork_main pl sys junk)))) =
           [pid_line ''before fork'' (self sys), pid_line ''after fork'' (self sys),
            pid_line ''after (pid == 0)'' (self sys), pid_line ''after wait'' (self sys),
            ''fork() return = '' @ show_int (fork_ret sys)] \<and>
         map_option (\<lambda>c. lines_of (stdout (final c))) (child (fork_main pl sys junk)) =
           Some [pid_line ''after fork'' \<lparr>getpid = fork_ret sys, getppid = getpid (self sys)\<rparr>,
                 pid_line ''inside (pid == 0)'' \<lparr>getpid = fork_ret sys, getppid = getpid (self sys)\<rparr>]"
proof -
  have "stdout (print_pid me tag s) = stdout s @ pid_line tag me @ [newline]"
    by (simp add: print_pid_eq)
  moreover have "lines_of (stdout (final (parent (fork_main pl sys junk)))) =
           [pid_line ''before fork'' (self sys), pid_line ''after fork'' (self sys),
            pid_line ''after (pid == 0)'' (self sys), pid_line ''after wait'' (self sys),
            ''fork() return = '' @ show_int (fork_ret sys)]"
    by (simp add: parent_completes [OF assms] parent_lines del: append.simps)
  moreover have "map_option (\<lambda>c. lines_of (stdout (final c))) (child (fork_main pl sys junk)) =
           Some [pid_line ''after fork'' \<lparr>getpid = fork_ret sys, getppid = getpid (self sys)\<rparr>,
                 pid_line ''inside (pid == 0)'' \<lparr>getpid = fork_ret sys, getppid = getpid (self sys)\<rparr>]"
    by (simp add: child_run [OF assms(1,2)] Let_def child_lines)
  ultimately show ?thesis by (intro conjI)
qed

text \<open>The witness is the run of the header comment of the source.\<close>

theorem fork_output_lines_witness:
  "stdout (print_pid \<lparr>getpid = 16026, getppid = 14381\<rparr> ''before fork'' (at_entry sample_junk)) =
     ''before fork pid=16026 ppid=14381'' @ [newline] \<and>
   lines_of (stdout (final (parent (fork_main glibc sample_os sample_junk)))) =
     [''before fork pid=16026 ppid=14381'', ''after fork pid=16026 ppid=14381'',
      ''after (pid == 0) pid=16026 ppid=14381'', ''after wait pid=16026 ppid=14381'',
      ''fork() return = 16031''] \<and>
   map_option (\<lambda>c. lines_of (stdout (final c))) (child (fork_main glibc sample_os sample_junk)) =
     Some [''after fork pid=16031 ppid=16026'', ''inside (pid == 0) pid=16031 ppid=16026'']"
  using fork_output_lines [of sample_os glibc \<open>\<lparr>getpid = 16026, getppid = 14381\<rparr>\<close> \<open>''before fork''\<close>
      \<open>at_entry sample_junk\<close> sample_junk]
  by (simp add: sample_facts glibc_status_0 glibc_facts(1) sample_lines at_entry_def)

text \<open>
  C3 as stated fails: the line the parent writes before waiting is tagged
  \<open>after (pid == 0)\<close>; no line of the run is tagged \<open>after (child path)\<close>.
\<close>

theorem parent_tag_counterexample:
  "lines_of (stdout (final (parent (fork_main glibc sample_os sample_junk)))) ! 2 =
     ''after (pid == 0) pid=16026 ppid=14381'' \<and>
   \<not> prefix ''after (child path)''
       (lines_of (stdout (final (parent (fork_main glibc sample_os sample_junk)))) ! 2) \<and>
   tagged ''after (child path)'' (stdout (final (parent (fork_main glibc sample_os sample_junk)))) = 0 \<and>
   map_option (\<lambda>c. tagged ''after (child path)'' (stdout (final c)))
     (child (fork_main glibc sample_os sample_junk)) = Some 0"
proof -
  have ok: "getpid (self sample_os) \<noteq> - 1" "fork_ret sample_os \<noteq> - 1" "fork_ret sample_os \<noteq> 0"
    "WIFEXITED glibc (wait_status sample_os)"
    "wait_status sample_os = WEXITSTATUS glibc (EXIT_SUCCESS glibc)"
    by (simp_all add: sample_facts glibc_status_0 glibc_facts(1))
  have l: "lines_of (stdout (final (parent (fork_main glibc sample_os sample_junk)))) =
     [''before fork pid=16026 ppid=14381'', ''after fork pid=16026 ppid=14381'',
      ''after (pid == 0) pid=16026 ppid=14381'', ''after wait pid=16026 ppid=14381'',
      ''fork() return = 16031'']"
    by (simp add: parent_completes [OF ok] parent_lines sample_facts del: append.simps)
      (simp add: sample_lines)
  have c: "map_option (\<lambda>c. stdout (final c)) (child (fork_main glibc sample_os sample_junk)) =
     Some (unlines [pid_line ''after fork'' \<lparr>getpid = 16031, getppid = 16026\<rparr>,
                    pid_line ''inside (pid == 0)'' \<lparr>getpid = 16031, getppid = 16026\<rparr>])"
    by (simp add: child_run [OF ok(1,2)] Let_def sample_facts)
  then obtain cr where cr: "child (fork_main glibc sample_os sample_junk) = Some cr"
    and cs: "stdout (final cr) =
      unlines [pid_line ''after fork'' \<lparr>getpid = 16031, getppid = 16026\<rparr>,
               pid_line ''inside (pid == 0)'' \<lparr>getpid = 16031, getppid = 16026\<rparr>]"
    by auto
  have "tagged ''after (child path)'' (stdout (final cr)) = 0"
    unfolding cs tagged_child by (simp add: pid_line_def)
  then show ?thesis
    unfolding tagged_def l by (simp add: cr)
qed

text \<open>
  C7. In a successful run exactly one line tagged \<open>inside\<close> is written, by the child,
  and it is the child's last line: the child ends inside the branch. Exactly one line
  tagged \<open>after wait\<close> is written, by the parent.
\<close>

theorem one_inside_one_after_wait:
  assumes "getpid (self sys) \<noteq> - 1" "fork_ret sys \<noteq> - 1" "fork_ret sys \<noteq> 0"
    and "WIFEXITED pl (wait_status sys)" "wait_status sys = WEXITSTATUS pl (EXIT_SUCCESS pl)"
  shows "map_option (\<lambda>c. tagged ''inside'' (stdout (final c))) (child (fork_main pl sys junk)) = Some 1 \<and>
         tagged ''inside'' (stdout (final (parent (fork_main pl sys junk)))) = 0 \<and>
         tagged ''after wait'' (stdout (final (parent (fork_main pl sys junk)))) = 1 \<and>
         map_option (\<lambda>c. tagged ''after wait'' (stdout (final c))) (child (fork_main pl sys junk)) = Some 0 \<and>
         map_option (\<lambda>c. last (lines_of (stdout (final c)))) (child (fork_main pl sys junk)) =
           Some (pid_line ''inside (pid == 0)'' \<lparr>getpid = fork_ret sys, getppid = getpid (self sys)\<rparr>)"
proof -
  have c: "map_option (\<lambda>c. stdout (final c)) (child (fork_main pl sys junk)) =
      Some (unlines [pid_line ''after fork'' \<lparr>getpid = fork_ret sys, getppid = getpid (self sys)\<rparr>,
                     pid_line ''inside (pid == 0)'' \<lparr>getpid = fork_ret sys, getppid = getpid (self sys)\<rparr>])"
    by (simp add: child_run [OF assms(1,2)] Let_def)
  have p: "stdout (final (parent (fork_main pl sys junk))) =
      unlines [pid_line ''before fork'' (self sys), pid_line ''after fork'' (self sys),
               pid_line ''after (pid == 0)'' (self sys), pid_line ''after wait'' (self sys),
               ''fork() return = '' @ show_int (fork_ret sys)]"
    by (simp add: parent_completes [OF assms])
  from c obtain cr where cr: "child (fork_main pl sys junk) = Some cr"
    and cs: "stdout (final cr) =
      unlines [pid_line ''after fork'' \<lparr>getpid = fork_ret sys, getppid = getpid (self sys)\<rparr>,
               pid_line ''inside (pid == 0)'' \<lparr>getpid = fork_ret sys, getppid = getpid (self sys)\<rparr>]"
    by auto
  have "tagged ''inside'' (stdout (final cr)) = 1" "tagged ''after wait'' (stdout (final cr)) = 0"
    unfolding cs tagged_child by (simp_all add: pid_line_def)
  moreover have "tagged ''inside'' (stdout (final (parent (fork_main pl sys junk)))) = 0"
    "tagged ''after wait'' (stdout (final (parent (fork_main pl sys junk)))) = 1"
    unfolding p tagged_parent by (simp_all add: pid_line_def)
  moreover have "last (lines_of (stdout (final cr))) =
      pid_line ''inside (pid == 0)'' \<lparr>getpid = fork_ret sys, getppid = getpid (self sys)\<rparr>"
    unfolding cs child_lines by simp
  ultimately show ?thesis
    by (simp add: cr)
qed

theorem one_inside_one_after_wait_witness:
  "map_option (\<lambda>c. tagged ''inside'' (stdout (final c))) (child (fork_main glibc sample_os sample_junk)) = Some 1 \<and>
   tagged ''inside'' (stdout (final (parent (fork_main glibc sample_os sample_junk)))) = 0 \<and>
   tagged ''after wait'' (stdout (final (parent (fork_main glibc sample_os sample_junk)))) = 1 \<and>
   map_option (\<lambda>c. tagged ''after wait'' (stdout (final c))) (child (fork_main glibc sample_os sample_junk)) = Some 0 \<and>
   map_option (\<lambda>c. last (lines_of (stdout (final c)))) (child (fork_main glibc sample_os sample_junk)) =
     Some ''inside (pid == 0) pid=16031 ppid=16026''"
  using one_inside_one_after_wait [of sample_os glibc sample_junk]
  by (simp add: sample_facts glibc_status_0 glibc_facts(1) sample_lines)

text \<open>
  C8. The \<open>before fork\<close> line, the first line of the run, shows as pid the id stored in
  \<^verbatim>\<open>ppid\<close> before the fork, which is the process's own id; no other number prints as
  that line.
\<close>

theorem before_fork_line_shows_own_pid:
  assumes "getpid (self sys) \<noteq> - 1"
  shows "ppid (final (parent (fork_main pl sys junk))) = getpid (self sys) \<and>
         hd (lines_of (stdout (final (parent (fork_main pl sys junk))))) =
           ''before fork pid='' @ show_int (ppid (final (parent (fork_main pl sys junk))))
             @ '' ppid='' @ show_int (getppid (self sys)) \<and>
         (\<forall>k. hd (lines_of (stdout (final (parent (fork_main pl sys junk))))) =
                 ''before fork pid='' @ show_int k @ '' ppid='' @ show_int (getppid (self sys))
              \<longrightarrow> k = ppid (final (parent (fork_main pl sys junk))))"
proof -
  obtain rest where "stdout (final (parent (fork_main pl sys junk))) =
      pid_line ''before fork'' (self sys) @ newline # rest"
    using parent_starts_with_before_fork [OF assms] by blast
  then have h: "hd (lines_of (stdout (final (parent (fork_main pl sys junk))))) =
      pid_line ''before fork'' (self sys)"
    by (simp add: lines_of_line no_newline_in_lines)
  have only: "k = getpid (self sys)"
    if "pid_line ''before fork'' (self sys) =
        ''before fork pid='' @ show_int k @ '' ppid='' @ show_int (getppid (self sys))" for k
  proof -
    from that have "show_int (getpid (self sys)) @ '' ppid='' @ show_int (getppid (self sys)) =
        show_int k @ '' ppid='' @ show_int (getppid (self sys))"
      by (simp add: pid_line_def)
    then have "show_int (getpid (self sys)) = show_int k"
      by (simp only: append_same_eq)
    then show ?thesis by (rule show_int_inj [symmetric])
  qed
  have shown: "pid_line ''before fork'' (self sys) =
      ''before fork pid='' @ show_int (getpid (self sys)) @ '' ppid='' @ show_int (getppid (self sys))"
    by (simp add: pid_line_def)
  show ?thesis
    unfolding h parent_ppid [OF assms] using only shown by blast
qed

theorem before_fork_line_shows_own_pid_witness:
  "ppid (final (parent (fork_main glibc sample_os sample_junk))) = 16026 \<and>
   hd (lines_of (stdout (final (parent (fork_main glibc sample_os sample_junk))))) =
     ''before fork pid=16026 ppid=14381''"
  using before_fork_line_shows_own_pid [of sample_os glibc sample_junk]
  by (simp add: sample_facts sample_lines)

subsection \<open>The two memories\<close>

text \<open>
  C4. In a run where the child increments its copy of \<^verbatim>\<open>i\<close> (it got a process id other
  than its parent's, so its assertion passed) and the parent reaches the end of the
  program: the child ends with \<open>i = 1\<close>, the parent's \<^verbatim>\<open>i\<close> is still 0, and the parent's
  final assertion passes, so that it returns \<^verbatim>\<open>EXIT_SUCCESS\<close>.
\<close>

theorem parent_counter_untouched:
  assumes "getpid (self sys) \<noteq> - 1" "fork_ret sys \<noteq> - 1" "fork_ret sys \<noteq> 0"
    and "fork_ret sys \<noteq> getpid (self sys)"
    and "WIFEXITED pl (wait_status sys)" "wait_status sys = WEXITSTATUS pl (EXIT_SUCCESS pl)"
  shows "map_option (\<lambda>c. i (final c)) (child (fork_main pl sys junk)) = Some 1 \<and>
         i (final (parent (fork_main pl sys junk))) = 0 \<and>
         how (parent (fork_main pl sys junk)) = Exit (EXIT_SUCCESS pl)"
  using assms(4)
  by (simp add: parent_completes [OF assms(1-3,5,6)] child_run [OF assms(1,2)] Let_def)

theorem parent_counter_untouched_witness:
  "map_option (\<lambda>c. i (final c)) (child (fork_main glibc sample_os sample_junk)) = Some 1 \<and>
   i (final (parent (fork_main glibc sample_os sample_junk))) = 0 \<and>
   how (parent (fork_main glibc sample_os sample_junk)) = Exit 0"
  using parent_counter_untouched [of sample_os glibc sample_junk]
  by (simp add: sample_facts glibc_status_0 glibc_facts(1))

text \<open>
  C5. When \<^verbatim>\<open>fork()\<close> gives the child an id other than the caller's, the pid the child
  queries again differs from the pid the parent stored before the fork (which the child
  holds in its copy of \<^verbatim>\<open>ppid\<close>), the child's assertion passes and the child exits with
  \<^verbatim>\<open>EXIT_SUCCESS\<close>.
\<close>

theorem child_pid_differs:
  assumes "getpid (self sys) \<noteq> - 1" "fork_ret sys \<noteq> - 1"
    and "fork_ret sys \<noteq> getpid (self sys)"
  shows "map_option (\<lambda>c. pid (final c)) (child (fork_main pl sys junk)) = Some (fork_ret sys) \<and>
         map_option (\<lambda>c. ppid (final c)) (child (fork_main pl sys junk)) = Some (getpid (self sys)) \<and>
         map_option (\<lambda>c. pid (final c) \<noteq> ppid (final c)) (child (fork_main pl sys junk)) = Some True \<and>
         map_option how (child (fork_main pl sys junk)) = Some (Exit (EXIT_SUCCESS pl))"
  using assms(3) by (simp add: child_run [OF assms(1,2)] Let_def)

theorem child_pid_differs_witness:
  "map_option (\<lambda>c. pid (final c)) (child (fork_main glibc sample_os sample_junk)) = Some 16031 \<and>
   map_option (\<lambda>c. ppid (final c)) (child (fork_main glibc sample_os sample_junk)) = Some 16026 \<and>
   map_option how (child (fork_main glibc sample_os sample_junk)) = Some (Exit 0)"
  using child_pid_differs [of sample_os glibc sample_junk]
  by (simp add: sample_facts glibc_facts(1))

text \<open>
  C10. None of the operations the parent performs after the fork writes \<^verbatim>\<open>pid\<close>, so
  the parent ends with \<^verbatim>\<open>pid\<close> still holding what \<^verbatim>\<open>fork()\<close> returned; when the
  parent completes, its last line is \<open>fork() return = \<close> followed by exactly that
  value, and by no other number.
\<close>

theorem parent_pid_not_written:
  assumes "getpid (self sys) \<noteq> - 1" "fork_ret sys \<noteq> - 1" "fork_ret sys \<noteq> 0"
  shows "pid (print_pid me msg s) = pid s \<and> pid (wait sys s) = pid s \<and>
         pid (printf txt s) = pid s \<and> pid (perror sys msg s) = pid s \<and>
         pid (final (parent (fork_main pl sys junk))) = fork_ret sys \<and>
         (WIFEXITED pl (wait_status sys) \<and> wait_status sys = WEXITSTATUS pl (EXIT_SUCCESS pl) \<longrightarrow>
            last (lines_of (stdout (final (parent (fork_main pl sys junk))))) =
              ''fork() return = '' @ show_int (fork_ret sys) \<and>
            (\<forall>k. last (lines_of (stdout (final (parent (fork_main pl sys junk))))) =
                    ''fork() return = '' @ show_int k \<longrightarrow> k = fork_ret sys))"
proof -
  have frame: "pid (print_pid me msg s) = pid s" "pid (wait sys s) = pid s"
    "pid (printf txt s) = pid s" "pid (perror sys msg s) = pid s"
    by (simp_all add: print_pid_eq wait_def printf_def perror_def)
  have kept: "pid (final (parent (fork_main pl sys junk))) = fork_ret sys"
    using assms by (simp add: fork_main_def Let_def after_fork_parent_pid)
  have printed: "last (lines_of (stdout (final (parent (fork_main pl sys junk))))) =
      ''fork() return = '' @ show_int (fork_ret sys)"
    if "WIFEXITED pl (wait_status sys) \<and> wait_status sys = WEXITSTATUS pl (EXIT_SUCCESS pl)"
  proof -
    from that have w: "WIFEXITED pl (wait_status sys)" by (rule conjunct1)
    from that have e: "wait_status sys = WEXITSTATUS pl (EXIT_SUCCESS pl)" by (rule conjunct2)
    show ?thesis
      by (simp add: parent_completes [OF assms w e] parent_lines del: append.simps)
  qed
  have only: "k = fork_ret sys"
    if "''fork() return = '' @ show_int (fork_ret sys) = ''fork() return = '' @ show_int k" for k
  proof -
    from that have "show_int (fork_ret sys) = show_int k"
      by (simp only: same_append_eq)
    then show ?thesis by (rule show_int_inj [symmetric])
  qed
  from frame kept printed only show ?thesis
    by metis
qed

theorem parent_pid_not_written_witness:
  "pid (final (parent (fork_main glibc sample_os sample_junk))) = 16031 \<and>
   last (lines_of (stdout (final (parent (fork_main glibc sample_os sample_junk))))) =
     ''fork() return = 16031''"
  using parent_pid_not_written [where sys = sample_os and pl = glibc and junk = sample_junk]
  by (simp add: sample_facts glibc_status_0 glibc_facts(1) sample_lines)

subsection \<open>Failures\<close>

text \<open>
  C6. Every failure ends the process at once. If \<^verbatim>\<open>getpid()\<close> fails (in the starting
  process, or in the child), \<open>getpid: ...\<close> is written to standard error and the
  process exits with \<^verbatim>\<open>EXIT_FAILURE\<close>, which is not 0. If \<^verbatim>\<open>fork()\<close> fails, standard error
  gets \<open>fork: ...\<close> and then the diagnostic of \<^verbatim>\<open>assert(false)\<close>, and the process
  aborts; there is no child and no second attempt. A child whose pid equals the stored
  one aborts on its assertion, before its increment. A status without \<^verbatim>\<open>WIFEXITED\<close>
  makes the parent write \<open>execl abnormal exit: ...\<close>, then the diagnostic of
  \<^verbatim>\<open>assert(false)\<close>, and abort: the flushed \<open>before fork\<close> line stays the first line
  of its output, and neither an \<open>after wait\<close> line nor a \<open>fork() return\<close> line is
  ever passed to standard output.
\<close>

theorem failures_are_fatal:
  assumes "EXIT_FAILURE pl \<noteq> 0"
  shows
   "(getpid (self sys) = - 1 \<longrightarrow>
       how (parent (fork_main pl sys junk)) = Exit (EXIT_FAILURE pl) \<and>
       how (parent (fork_main pl sys junk)) \<noteq> Exit 0 \<and>
       stderr (final (parent (fork_main pl sys junk))) = ''getpid: '' @ strerror_text sys @ [newline] \<and>
       stdout (final (parent (fork_main pl sys junk))) = [] \<and>
       child (fork_main pl sys junk) = None) \<and>
    (getpid (self sys) \<noteq> - 1 \<and> fork_ret sys = - 1 \<longrightarrow>
       how (parent (fork_main pl sys junk)) = Abort \<and>
       prefix (''fork: '' @ strerror_text sys @ [newline])
         (stderr (final (parent (fork_main pl sys junk)))) \<and>
       stderr (final (parent (fork_main pl sys junk))) =
         ''fork: '' @ strerror_text sys @ [newline] @ assert_text sys 98 ''false'' \<and>
       lines_of (stdout (final (parent (fork_main pl sys junk)))) = [pid_line ''before fork'' (self sys)] \<and>
       child (fork_main pl sys junk) = None) \<and>
    (getpid (self sys) \<noteq> - 1 \<and> fork_ret sys \<noteq> - 1 \<and> fork_ret sys = getpid (self sys) \<longrightarrow>
       map_option how (child (fork_main pl sys junk)) = Some Abort \<and>
       map_option (\<lambda>c. stderr (final c)) (child (fork_main pl sys junk)) =
         Some (assert_text sys 119 ''pid != ppid'') \<and>
       map_option (\<lambda>c. i (final c)) (child (fork_main pl sys junk)) = Some 0) \<and>
    (getpid (self sys) \<noteq> - 1 \<and> fork_ret sys \<noteq> - 1 \<and> fork_ret sys \<noteq> 0 \<and>
     \<not> WIFEXITED pl (wait_status sys) \<longrightarrow>
       how (parent (fork_main pl sys junk)) = Abort \<and>
       prefix (''execl abnormal exit: '' @ strerror_text sys @ [newline])
         (stderr (final (parent (fork_main pl sys junk)))) \<and>
       stderr (final (parent (fork_main pl sys junk))) =
         ''execl abnormal exit: '' @ strerror_text sys @ [newline] @ assert_text sys 143 ''false'' \<and>
       hd (lines_of (stdout (final (parent (fork_main pl sys junk))))) =
         pid_line ''before fork'' (self sys) \<and>
       tagged ''after wait'' (stdout (final (parent (fork_main pl sys junk)))) = 0 \<and>
       tagged ''fork() return'' (stdout (final (parent (fork_main pl sys junk)))) = 0) \<and>
    (pid s = 0 \<and> getpid me = - 1 \<longrightarrow>
       how (after_fork pl sys me s) = Exit (EXIT_FAILURE pl) \<and>
       how (after_fork pl sys me s) \<noteq> Exit 0 \<and>
       stderr (final (after_fork pl sys me s)) =
         stderr s @ ''getpid: '' @ strerror_text sys @ [newline])"
proof (intro conjI impI)
  assume a: "getpid (self sys) = - 1"
  show "how (parent (fork_main pl sys junk)) = Exit (EXIT_FAILURE pl)"
    "how (parent (fork_main pl sys junk)) \<noteq> Exit 0"
    "stderr (final (parent (fork_main pl sys junk))) = ''getpid: '' @ strerror_text sys @ [newline]"
    "stdout (final (parent (fork_main pl sys junk))) = []"
    "child (fork_main pl sys junk) = None"
    using assms by (simp_all add: parent_getpid_fails [OF a])
next
  assume "getpid (self sys) \<noteq> - 1 \<and> fork_ret sys = - 1"
  then have a: "getpid (self sys) \<noteq> - 1" "fork_ret sys = - 1" by simp_all
  show "how (parent (fork_main pl sys junk)) = Abort"
    "stderr (final (parent (fork_main pl sys junk))) =
         ''fork: '' @ strerror_text sys @ [newline] @ assert_text sys 98 ''false''"
    "lines_of (stdout (final (parent (fork_main pl sys junk)))) = [pid_line ''before fork'' (self sys)]"
    "child (fork_main pl sys junk) = None"
    by (simp_all add: parent_fork_fails [OF a] before_fork_lines)
  have "stderr (final (parent (fork_main pl sys junk))) =
      (''fork: '' @ strerror_text sys @ [newline]) @ assert_text sys 98 ''false''"
    by (simp add: parent_fork_fails [OF a])
  then show "prefix (''fork: '' @ strerror_text sys @ [newline])
      (stderr (final (parent (fork_main pl sys junk))))"
    by (simp only: prefixI)
next
  assume "getpid (self sys) \<noteq> - 1 \<and> fork_ret sys \<noteq> - 1 \<and> fork_ret sys = getpid (self sys)"
  then have a: "getpid (self sys) \<noteq> - 1" "fork_ret sys \<noteq> - 1"
    and e: "fork_ret sys = getpid (self sys)" by simp_all
  show "map_option how (child (fork_main pl sys junk)) = Some Abort"
    "map_option (\<lambda>c. stderr (final c)) (child (fork_main pl sys junk)) =
       Some (assert_text sys 119 ''pid != ppid'')"
    "map_option (\<lambda>c. i (final c)) (child (fork_main pl sys junk)) = Some 0"
    using e by (simp_all add: child_run [OF a] Let_def)
next
  assume "getpid (self sys) \<noteq> - 1 \<and> fork_ret sys \<noteq> - 1 \<and> fork_ret sys \<noteq> 0 \<and>
     \<not> WIFEXITED pl (wait_status sys)"
  then have a: "getpid (self sys) \<noteq> - 1" "fork_ret sys \<noteq> - 1" "fork_ret sys \<noteq> 0"
    and w: "\<not> WIFEXITED pl (wait_status sys)" by simp_all
  have out: "stdout (final (parent (fork_main pl sys junk))) =
      unlines [pid_line ''before fork'' (self sys), pid_line ''after fork'' (self sys),
               pid_line ''after (pid == 0)'' (self sys)]"
    using w by (simp add: parent_run [OF a] Let_def)
  show "how (parent (fork_main pl sys junk)) = Abort"
    "stderr (final (parent (fork_main pl sys junk))) =
       ''execl abnormal exit: '' @ strerror_text sys @ [newline] @ assert_text sys 143 ''false''"
    using w by (simp_all add: parent_run [OF a] Let_def)
  have "stderr (final (parent (fork_main pl sys junk))) =
      (''execl abnormal exit: '' @ strerror_text sys @ [newline]) @ assert_text sys 143 ''false''"
    using w by (simp add: parent_run [OF a] Let_def)
  then show "prefix (''execl abnormal exit: '' @ strerror_text sys @ [newline])
      (stderr (final (parent (fork_main pl sys junk))))"
    by (simp only: prefixI)
  show "hd (lines_of (stdout (final (parent (fork_main pl sys junk))))) =
      pid_line ''before fork'' (self sys)"
    unfolding out waiting_lines by simp
  show "tagged ''after wait'' (stdout (final (parent (fork_main pl sys junk)))) = 0"
    "tagged ''fork() return'' (stdout (final (parent (fork_main pl sys junk)))) = 0"
    unfolding out tagged_waiting by (simp_all add: pid_line_def)
next
  assume "pid s = 0 \<and> getpid me = - 1"
  then have a: "pid s = 0" "getpid me = - 1" by simp_all
  show "how (after_fork pl sys me s) = Exit (EXIT_FAILURE pl)"
    "how (after_fork pl sys me s) \<noteq> Exit 0"
    "stderr (final (after_fork pl sys me s)) = stderr s @ ''getpid: '' @ strerror_text sys @ [newline]"
    using assms by (simp_all add: child_getpid_fails [OF a])
qed

theorem failures_are_fatal_witness:
  "how (parent (fork_main glibc (sample_os\<lparr>self := \<lparr>getpid = - 1, getppid = 14381\<rparr>\<rparr>) sample_junk)) = Exit 1 \<and>
   stderr (final (parent (fork_main glibc (sample_os\<lparr>self := \<lparr>getpid = - 1, getppid = 14381\<rparr>\<rparr>) sample_junk))) =
     ''getpid: Success'' @ [newline] \<and>
   stdout (final (parent (fork_main glibc (sample_os\<lparr>self := \<lparr>getpid = - 1, getppid = 14381\<rparr>\<rparr>) sample_junk))) = [] \<and>
   child (fork_main glibc (sample_os\<lparr>self := \<lparr>getpid = - 1, getppid = 14381\<rparr>\<rparr>) sample_junk) = None \<and>
   how (parent (fork_main glibc (sample_os\<lparr>fork_ret := - 1\<rparr>) sample_junk)) = Abort \<and>
   stderr (final (parent (fork_main glibc (sample_os\<lparr>fork_ret := - 1\<rparr>) sample_junk))) =
     ''fork: Success'' @ [newline] @ ''fork: fork.c:98: main: Assertion false failed.'' @ [newline] \<and>
   lines_of (stdout (final (parent (fork_main glibc (sample_os\<lparr>fork_ret := - 1\<rparr>) sample_junk)))) =
     [''before fork pid=16026 ppid=14381''] \<and>
   child (fork_main glibc (sample_os\<lparr>fork_ret := - 1\<rparr>) sample_junk) = None \<and>
   map_option how (child (fork_main glibc (sample_os\<lparr>fork_ret := 16026\<rparr>) sample_junk)) = Some Abort \<and>
   map_option (\<lambda>c. stderr (final c)) (child (fork_main glibc (sample_os\<lparr>fork_ret := 16026\<rparr>) sample_junk)) =
     Some (''fork: fork.c:119: main: Assertion pid != ppid failed.'' @ [newline]) \<and>
   how (parent (fork_main glibc (sample_os\<lparr>wait_status := 6\<rparr>) sample_junk)) = Abort \<and>
   stderr (final (parent (fork_main glibc (sample_os\<lparr>wait_status := 6\<rparr>) sample_junk))) =
     ''execl abnormal exit: Success'' @ [newline] @
     ''fork: fork.c:143: main: Assertion false failed.'' @ [newline] \<and>
   tagged ''after wait''
     (stdout (final (parent (fork_main glibc (sample_os\<lparr>wait_status := 6\<rparr>) sample_junk)))) = 0 \<and>
   how (after_fork glibc sample_os \<lparr>getpid = - 1, getppid = 16026\<rparr> (sample_junk\<lparr>pid := 0\<rparr>)) = Exit 1"
proof -
  have f: "EXIT_FAILURE glibc \<noteq> 0" by (simp add: glibc_facts)
  note t = failures_are_fatal [OF f, where junk = sample_junk and s = "sample_junk\<lparr>pid := 0\<rparr>"
      and me = "\<lparr>getpid = - 1, getppid = 16026\<rparr>"]
  show ?thesis
    using t [where sys = "sample_os\<lparr>self := \<lparr>getpid = - 1, getppid = 14381\<rparr>\<rparr>"]
      t [where sys = "sample_os\<lparr>fork_ret := - 1\<rparr>"]
      t [where sys = "sample_os\<lparr>fork_ret := 16026\<rparr>"]
      t [where sys = "sample_os\<lparr>wait_status := 6\<rparr>"]
      t [where sys = sample_os]
    by (simp add: sample_os_def sample_junk_def glibc_facts pid_line_def show_int_def
        show_nat.simps digit_char_def)
qed

end
